theory Spec2Isabelle
  imports Complex_Main "HOL-Library.AList" "HOL-Library.Word"
begin

section \<open>Python strings and JSON values\<close>

text \<open>
  A Python \<open>str\<close> is modelled as a \<open>string\<close>. HTTP header values reach the endpoint
  decoded as Latin-1, so one \<open>char\<close> is one code point below 256 there.
\<close>

text \<open>\<open>s.split(sep)\<close> for a one-character separator: never returns the empty list.\<close>

fun split :: "char \<Rightarrow> string \<Rightarrow> string list" where
  "split sep [] = [[]]"
| "split sep (c # cs) =
     (if c = sep then [] # split sep cs
      else (case split sep cs of [] \<Rightarrow> [[c]] | w # ws \<Rightarrow> (c # w) # ws))"

text \<open>The code points below 256 for which \<open>str.isspace\<close> holds.\<close>

definition isspace :: "char \<Rightarrow> bool" where
  "isspace c = ((of_char c :: nat) \<in> {9, 10, 11, 12, 13, 28, 29, 30, 31, 32, 133, 160})"

text \<open>\<open>s.strip()\<close>: leading and trailing whitespace removed.\<close>

definition strip :: "string \<Rightarrow> string" where
  "strip s = rev (dropWhile isspace (rev (dropWhile isspace s)))"

text \<open>
  \<open>s.lower()\<close> on code points below 256: \<open>A\<close>..\<open>Z\<close> and the Latin-1 capitals
  (0xC0..0xDE without the multiplication sign 0xD7) move up by 32.
\<close>

definition lower_char :: "char \<Rightarrow> char" where
  "lower_char c =
     (let n = (of_char c :: nat)
      in if (65 \<le> n \<and> n \<le> 90) \<or> (192 \<le> n \<and> n \<le> 222 \<and> n \<noteq> 215)
         then char_of (n + 32) else c)"

definition lower :: "string \<Rightarrow> string" where
  "lower s = map lower_char s"

text \<open>\<open>p in t\<close> on strings: \<open>p\<close> occurs in \<open>t\<close> as a contiguous substring.\<close>

definition startswith :: "string \<Rightarrow> string \<Rightarrow> bool" where
  "startswith t p = (take (length p) t = p)"

fun contains :: "string \<Rightarrow> string \<Rightarrow> bool" where
  "contains p [] = (p = [])"
| "contains p (c # cs) = (startswith (c # cs) p \<or> contains p cs)"

text \<open>\<open>s.replace(old, new)\<close> for a one-character \<open>old\<close>.\<close>

definition replace :: "char \<Rightarrow> string \<Rightarrow> string \<Rightarrow> string" where
  "replace old new s = concat (map (\<lambda>c. if c = old then new else [c]) s)"

text \<open>
  JSON values as Python holds them after parsing (\<open>None\<close>, \<open>bool\<close>, \<open>int\<close>, \<open>str\<close>,
  \<open>list\<close>, \<open>dict\<close>). A \<open>dict\<close> is an association list in insertion order, read with
  \<open>map_of\<close>. Numbers with a fractional part are left out of the model.
\<close>

datatype json =
    JNull
  | JBool bool
  | JInt int
  | JStr string
  | JArr "json list"
  | JObj "(string \<times> json) list"

text \<open>Python truthiness, as tested by \<open>if not x\<close>.\<close>

fun truthy :: "json \<Rightarrow> bool" where
  "truthy JNull = False"
| "truthy (JBool b) = b"
| "truthy (JInt i) = (i \<noteq> 0)"
| "truthy (JStr s) = (s \<noteq> [])"
| "truthy (JArr xs) = (xs \<noteq> [])"
| "truthy (JObj kvs) = (kvs \<noteq> [])"

text \<open>\<open>d.get(k)\<close> and \<open>d.get(k, default)\<close>.\<close>

definition dict_get :: "(string \<times> json) list \<Rightarrow> string \<Rightarrow> json" where
  "dict_get d k = (case map_of d k of None \<Rightarrow> JNull | Some v \<Rightarrow> v)"

definition dict_get_default :: "(string \<times> json) list \<Rightarrow> string \<Rightarrow> json \<Rightarrow> json" where
  "dict_get_default d k dflt = (case map_of d k of None \<Rightarrow> dflt | Some v \<Rightarrow> v)"

text \<open>\<open>str(n)\<close> for an \<open>int\<close>.\<close>

fun str_nat :: "nat \<Rightarrow> string" where
  "str_nat n =
     (if n < 10 then [''0123456789'' ! n]
      else str_nat (n div 10) @ [''0123456789'' ! (n mod 10)])"

declare str_nat.simps [simp del]

definition str_int :: "int \<Rightarrow> string" where
  "str_int i = (if i < 0 then CHR ''-'' # str_nat (nat (- i)) else str_nat (nat i))"

section \<open>Content negotiation\<close>

text \<open>
  \<open>_validate_accept_header\<close> (server.py): a missing or empty header is refused; otherwise
  the header is split on commas, each element stripped and lowercased, and both media
  types must occur in some element.
\<close>

definition accept_types :: "string \<Rightarrow> string list" where
  "accept_types accept_header = map (\<lambda>t. lower (strip t)) (split CHR '','' accept_header)"

definition validate_accept_header :: "string option \<Rightarrow> bool" where
  "validate_accept_header accept_header =
     (case accept_header of
        None \<Rightarrow> False
      | Some h \<Rightarrow>
          if h = [] then False
          else
            let types = accept_types h;
                has_json = list_ex (contains ''application/json'') types;
                has_sse = list_ex (contains ''text/event-stream'') types
            in has_json \<and> has_sse)"

section \<open>JSON-RPC messages, tools, sessions\<close>

text \<open>
  \<open>MCPRequest\<close>, \<open>MCPResponse\<close> and \<open>ErrorResponse\<close> are built and read by the server
  with the fields below (\<open>req_id\<close>, \<open>req_method\<close> and \<open>resp_id\<close> stand for the
  fields \<open>id\<close> and \<open>method\<close>). \<open>params\<close> is an optional \<open>dict\<close>; the request id is
  opaque and echoed.
\<close>

record MCPRequest =
  req_id :: json
  req_method :: string
  params :: "(string \<times> json) list option"

record ErrorResponse =
  code :: int
  message :: string

record MCPResponse =
  resp_id :: json
  result :: "json option"
  error :: "ErrorResponse option"

text \<open>The two ways the server calls the \<open>MCPResponse\<close> constructor.\<close>

definition MCPResponse_result :: "json \<Rightarrow> json \<Rightarrow> MCPResponse" where
  "MCPResponse_result i r = \<lparr>resp_id = i, result = Some r, error = None\<rparr>"

definition MCPResponse_error :: "json \<Rightarrow> int \<Rightarrow> string \<Rightarrow> MCPResponse" where
  "MCPResponse_error i c m =
     \<lparr>resp_id = i, result = None, error = Some \<lparr>code = c, message = m\<rparr>\<rparr>"

text \<open>
  A tool: its \<open>execute\<close> is asynchronous, works on the external user service (state
  \<open>'u\<close>) and either returns a text (\<open>Inr\<close>) or raises an \<open>Exception\<close> whose \<open>str\<close> is
  the message (\<open>Inl\<close>). The tool bodies wrap the user-service client, which is an
  external collaborator, so \<open>execute\<close> is a parameter of the model.
\<close>

record 'u tool =
  name :: string
  description :: string
  input_schema :: json
  execute :: "json \<Rightarrow> 'u \<Rightarrow> (string + string) \<times> 'u"

text \<open>
  Modelled from the spec: \<open>to_mcp_tool\<close> of the tools' base class (not among the source
  files), which renders a tool in the MCP wire shape \<open>{name, description, inputSchema}\<close>.
\<close>

definition to_mcp_tool :: "'u tool \<Rightarrow> json" where
  "to_mcp_tool t =
     JObj [(''name'', JStr (name t)),
           (''description'', JStr (description t)),
           (''inputSchema'', input_schema t)]"

text \<open>\<open>MCPSession\<close>: the clock reading is the event loop's time.\<close>

record MCPSession =
  session_id :: string
  ready_for_operation :: bool
  created_at :: real
  last_activity :: real

definition MCPSession_init :: "string \<Rightarrow> real \<Rightarrow> MCPSession" where
  "MCPSession_init sid t =
     \<lparr>session_id = sid, ready_for_operation = False, created_at = t, last_activity = t\<rparr>"

text \<open>
  \<open>MCPServer\<close>: \<open>sessions\<close> is the dict from session id to session object, \<open>tools\<close> the
  registry dict in insertion order.
\<close>

record 'u MCPServer =
  protocol_version :: string
  server_info :: json
  sessions :: "string \<rightharpoonup> MCPSession"
  tools :: "(string \<times> 'u tool) list"

text \<open>\<open>_register_tools\<close>: each tool of the list is stored under its name.\<close>

definition register_tools :: "'u tool list \<Rightarrow> (string \<times> 'u tool) list" where
  "register_tools tools_list = foldl (\<lambda>d t. AList.update (name t) t d) [] tools_list"

definition MCPServer_init :: "'u tool list \<Rightarrow> 'u MCPServer" where
  "MCPServer_init tools_list =
     \<lparr>protocol_version = ''2024-11-05'',
      server_info = JObj [(''name'', JStr ''custom-ums-mcp-server''), (''version'', JStr ''1.0.0'')],
      sessions = Map.empty,
      tools = register_tools tools_list\<rparr>"

text \<open>
  \<open>_validate_protocol_version\<close>: membership in the list of supported versions is by
  equality, whatever the type of the value.
\<close>

definition validate_protocol_version :: "'u MCPServer \<Rightarrow> json \<Rightarrow> json" where
  "validate_protocol_version self client_version =
     (let supported_versions = [JStr ''2024-11-05'']
      in if client_version \<in> set supported_versions then client_version
         else JStr (protocol_version self))"

text \<open>\<open>get_session\<close>: a session that is found has its \<open>last_activity\<close> set to the clock.\<close>

definition get_session ::
  "'u MCPServer \<Rightarrow> string \<Rightarrow> real \<Rightarrow> MCPSession option \<times> 'u MCPServer" where
  "get_session self sid t =
     (case sessions self sid of
        None \<Rightarrow> (None, self)
      | Some session \<Rightarrow>
          (let session' = session\<lparr>last_activity := t\<rparr>
           in (Some session', self\<lparr>sessions := (sessions self)(sid \<mapsto> session')\<rparr>)))"

section \<open>Session creation\<close>

text \<open>
  What one request reads from its environment: the value \<open>uuid.uuid4()\<close> returns (128
  bits) and the event loop's clock.
\<close>

record env =
  uuid4 :: "128 word"
  now :: real

text \<open>\<open>str(uuid)\<close>: \<open>'%032x' % int\<close>, cut into groups of 8-4-4-4-12 joined by dashes.\<close>

definition hex_digit :: "nat \<Rightarrow> char" where
  "hex_digit d = ''0123456789abcdef'' ! d"

fun hexdigits :: "nat \<Rightarrow> string" where
  "hexdigits n =
     (if n < 16 then [hex_digit n]
      else hexdigits (n div 16) @ [hex_digit (n mod 16)])"

declare hexdigits.simps [simp del]

definition format_032x :: "nat \<Rightarrow> string" where
  "format_032x n = (let d = hexdigits n in replicate (32 - length d) CHR ''0'' @ d)"

definition uuid_str :: "128 word \<Rightarrow> string" where
  "uuid_str u =
     (let hex = format_032x (unat u)
      in take 8 hex @ ''-'' @ take 4 (drop 8 hex) @ ''-'' @ take 4 (drop 12 hex) @ ''-''
         @ take 4 (drop 16 hex) @ ''-'' @ drop 20 hex)"

text \<open>\<open>str(uuid.uuid4()).replace("-", "")\<close>\<close>

definition new_session_id :: "env \<Rightarrow> string" where
  "new_session_id e = replace CHR ''-'' [] (uuid_str (uuid4 e))"

text \<open>\<open>handle_initialize\<close>: returns the response and the new session id.\<close>

definition handle_initialize ::
  "'u MCPServer \<Rightarrow> MCPRequest \<Rightarrow> env \<Rightarrow> (MCPResponse \<times> string) \<times> 'u MCPServer" where
  "handle_initialize self request e =
     (let sid = new_session_id e;
          session = MCPSession_init sid (now e);
          self' = self\<lparr>sessions := (sessions self)(sid \<mapsto> session)\<rparr>;
          pv = (case params request of
                  None \<Rightarrow> JStr (protocol_version self)
                | Some ps \<Rightarrow>
                    if ps = [] then JStr (protocol_version self)
                    else dict_get ps ''protocolVersion'');
          response = MCPResponse_result (req_id request)
            (JObj [(''protocolVersion'', pv),
                   (''capabilities'',
                      JObj [(''tools'', JObj []), (''resources'', JObj []), (''prompts'', JObj [])]),
                   (''serverInfo'', server_info self)])
      in ((response, sid), self'))"

section \<open>Tool listing and tool calls\<close>

definition handle_tools_list :: "'u MCPServer \<Rightarrow> MCPRequest \<Rightarrow> MCPResponse" where
  "handle_tools_list self request =
     (let tools_list = map (\<lambda>(k, t). to_mcp_tool t) (tools self)
      in MCPResponse_result (req_id request) (JObj [(''tools'', JArr tools_list)]))"

text \<open>
  An exception that leaves \<open>handle_tools_call\<close>: \<open>tool_name in self.tools\<close> hashes the
  name, and a \<open>list\<close> or a \<open>dict\<close> is unhashable.
\<close>

datatype py_exception = TypeError string

definition tool_not_found :: "MCPRequest \<Rightarrow> string \<Rightarrow> MCPResponse" where
  "tool_not_found request shown =
     MCPResponse_error (req_id request) 32601 (''Tool '' @ [CHR 0x27] @ shown @ [CHR 0x27] @ '' not found'')"

definition text_content :: "string \<Rightarrow> json" where
  "text_content t = JArr [JObj [(''type'', JStr ''text''), (''text'', JStr t)]]"

definition handle_tools_call ::
  "'u MCPServer \<Rightarrow> MCPRequest \<Rightarrow> 'u \<Rightarrow> (py_exception + MCPResponse) \<times> 'u" where
  "handle_tools_call self request u =
     (case params request of
        None \<Rightarrow> (Inr (MCPResponse_error (req_id request) 32602 ''Missing parameters''), u)
      | Some ps \<Rightarrow>
          if ps = [] then
            (Inr (MCPResponse_error (req_id request) 32602 ''Missing parameters''), u)
          else
            (let tool_name = dict_get ps ''name'';
                 arguments = dict_get_default ps ''arguments'' (JObj [])
             in if \<not> truthy tool_name then
                  (Inr (MCPResponse_error (req_id request) 32602
                          ''Missing required parameter: name''), u)
                else
                  (case tool_name of
                     JArr xs \<Rightarrow> (Inl (TypeError (''unhashable type: '' @ [CHR 0x27] @ ''list'' @ [CHR 0x27])), u)
                   | JObj kvs \<Rightarrow> (Inl (TypeError (''unhashable type: '' @ [CHR 0x27] @ ''dict'' @ [CHR 0x27])), u)
                   | JNull \<Rightarrow> (Inr (tool_not_found request ''None''), u)
                   | JBool b \<Rightarrow>
                       (Inr (tool_not_found request (if b then ''True'' else ''False'')), u)
                   | JInt i \<Rightarrow> (Inr (tool_not_found request (str_int i)), u)
                   | JStr n \<Rightarrow>
                       (case map_of (tools self) n of
                          None \<Rightarrow> (Inr (tool_not_found request n), u)
                        | Some t \<Rightarrow>
                            (case execute t arguments u of
                               (Inr txt, u') \<Rightarrow>
                                 (Inr (MCPResponse_result (req_id request)
                                         (JObj [(''content'', text_content txt)])), u')
                             | (Inl e, u') \<Rightarrow>
                                 (Inr (MCPResponse_result (req_id request)
                                         (JObj [(''content'',
                                                   text_content (''Tool execution error: '' @ e)),
                                                (''isError'', JBool True)])), u'))))))"

section \<open>Response framing\<close>

text \<open>
  The serializers are library functions and parameters of the model:
  \<open>m.model_dump_json()\<close>, \<open>m.model_dump_json(exclude_none=True)\<close>,
  \<open>m.dict(exclude_none=True)\<close> and \<open>json.dumps\<close>.
\<close>

record ('m, 'd) serializers =
  model_dump_json :: "'m \<Rightarrow> string"
  model_dump_json_exclude_none :: "'m \<Rightarrow> string"
  dict_exclude_none :: "'d \<Rightarrow> json"
  dumps :: "json \<Rightarrow> string"

text \<open>
  A response object is told apart by the attribute it has (\<open>model_dump_json\<close>, else
  \<open>dict\<close>, else neither). A message of the stream is such an object or an awaitable that
  produces one when awaited, working on the user service and possibly raising.
\<close>

datatype ('m, 'd) response_object = HasModelDumpJson 'm | HasDict 'd | Other json

datatype ('u, 'm, 'd) stream_message =
    Ready "('m, 'd) response_object"
  | Awaitable "'u \<Rightarrow> (py_exception + ('m, 'd) response_object) \<times> 'u"

fun payload :: "('m, 'd) serializers \<Rightarrow> ('m, 'd) response_object \<Rightarrow> string" where
  "payload ser (HasModelDumpJson m) = model_dump_json_exclude_none ser m"
| "payload ser (HasDict d) = dumps ser (dict_exclude_none ser d)"
| "payload ser (Other j) = dumps ser j"

definition sse_frame :: "string \<Rightarrow> string" where
  "sse_frame p = ''data: '' @ p @ [CHR 0x0A, CHR 0x0A]"

definition sse_done :: string where
  "sse_done = ''data: [DONE]'' @ [CHR 0x0A, CHR 0x0A]"

text \<open>
  \<open>_create_sse_stream\<close>: the chunks the generator yields, in order, and the exception that
  ended it early, if any. A chunk is the UTF-8 encoding of the frame; the model keeps the
  frame.
\<close>

fun create_sse_stream ::
  "('m, 'd) serializers \<Rightarrow> ('u, 'm, 'd) stream_message list \<Rightarrow> 'u
     \<Rightarrow> (string list \<times> py_exception option) \<times> 'u" where
  "create_sse_stream ser [] u = (([sse_done], None), u)"
| "create_sse_stream ser (Ready ob # messages) u =
     (case create_sse_stream ser messages u of
        ((chunks, raised), u') \<Rightarrow> ((sse_frame (payload ser ob) # chunks, raised), u'))"
| "create_sse_stream ser (Awaitable aw # messages) u =
     (case aw u of
        (Inl e, u1) \<Rightarrow> (([], Some e), u1)
      | (Inr ob, u1) \<Rightarrow>
          (case create_sse_stream ser messages u1 of
             ((chunks, raised), u') \<Rightarrow> ((sse_frame (payload ser ob) # chunks, raised), u')))"

text \<open>
  The response objects a list of messages stands for: an object that is ready stands for
  itself, an awaitable for the object it yields when awaited; the messages are awaited in
  input order, each on the user service as the ones before it left it, up to the first
  awaitable that raises.
\<close>

fun awaited_objects ::
  "('u, 'm, 'd) stream_message list \<Rightarrow> 'u
     \<Rightarrow> (('m, 'd) response_object list \<times> py_exception option) \<times> 'u" where
  "awaited_objects [] u = (([], None), u)"
| "awaited_objects (Ready ob # messages) u =
     (case awaited_objects messages u of
        ((obs, raised), u') \<Rightarrow> ((ob # obs, raised), u'))"
| "awaited_objects (Awaitable aw # messages) u =
     (case aw u of
        (Inl e, u1) \<Rightarrow> (([], Some e), u1)
      | (Inr ob, u1) \<Rightarrow>
          (case awaited_objects messages u1 of
             ((obs, raised), u') \<Rightarrow> ((ob # obs, raised), u')))"

section \<open>The endpoint\<close>

text \<open>
  The two reply classes. A header dict is a list of pairs; the value of the session-id
  header of a streaming reply is the variable \<open>mcp_session_id\<close>, an optional string.
  A streaming reply has status 200.
\<close>

datatype http_response =
    Response (status_code: nat) (content: string) (media_type: "string option")
      (headers: "(string \<times> string option) list")
  | StreamingResponse (stream: "string list \<times> py_exception option")
      (media_type: "string option") (headers: "(string \<times> string option) list")

definition MCP_SESSION_ID_HEADER :: string where
  "MCP_SESSION_ID_HEADER = ''Mcp-Session-Id''"

text \<open>
  What handling one request leaves behind: the reply, the headers of the injected
  \<open>response\<close> object, the server and the user service.
\<close>

record 'u outcome =
  reply :: http_response
  response_headers :: "(string \<times> string) list"
  server :: "'u MCPServer"
  users :: 'u

text \<open>The reply built at the two places that refuse a request for its session.\<close>

definition missing_session_reply :: "(MCPResponse, 'd) serializers \<Rightarrow> http_response" where
  "missing_session_reply ser =
     (let error_response = MCPResponse_error (JStr ''server-error'') (- 32600) ''Missing session ID''
      in Response 400 (model_dump_json ser error_response) (Some ''application/json'') [])"

text \<open>The final \<open>return StreamingResponse(...)\<close> with the stream run to its end.\<close>

definition streaming_reply ::
  "(MCPResponse, 'd) serializers \<Rightarrow> ('u, MCPResponse, 'd) stream_message \<Rightarrow> string option
     \<Rightarrow> (string \<times> string) list \<Rightarrow> 'u MCPServer \<Rightarrow> 'u \<Rightarrow> 'u outcome" where
  "streaming_reply ser mcp_response mcp_session_id response self u =
     (case create_sse_stream ser [mcp_response] u of
        (chunks, u') \<Rightarrow>
          \<lparr>reply = StreamingResponse chunks (Some ''text/event-stream'')
                     [(''Cache-Control'', Some ''no-cache''),
                      (''Connection'', Some ''keep-alive''),
                      (MCP_SESSION_ID_HEADER, mcp_session_id)],
           response_headers = response, server = self, users = u'\<rparr>)"

definition handle_mcp_request ::
  "(MCPResponse, 'd) serializers \<Rightarrow> env \<Rightarrow> 'u MCPServer \<Rightarrow> 'u \<Rightarrow> MCPRequest
     \<Rightarrow> (string \<times> string) list \<Rightarrow> string option \<Rightarrow> string option \<Rightarrow> 'u outcome" where
  "handle_mcp_request ser e mcp_server u request response accept mcp_session_id =
     (if \<not> validate_accept_header accept then
        (let error_response = MCPResponse_error (JStr ''server-error'') (- 32600)
               ''Client must accept both application/json and text/event-stream''
         in \<lparr>reply = Response 406 (model_dump_json ser error_response)
                        (Some ''application/json'') [],
             response_headers = response, server = mcp_server, users = u\<rparr>)
      else if req_method request = ''initialize'' then
        (case handle_initialize mcp_server request e of
           ((mcp_response, sid), mcp_server') \<Rightarrow>
             if sid \<noteq> [] then
               streaming_reply ser (Ready (HasModelDumpJson mcp_response)) (Some sid)
                 (AList.update MCP_SESSION_ID_HEADER sid response) mcp_server' u
             else
               streaming_reply ser (Ready (HasModelDumpJson mcp_response)) mcp_session_id
                 response mcp_server' u)
      else
        (case mcp_session_id of
           None \<Rightarrow>
             \<lparr>reply = missing_session_reply ser,
              response_headers = response, server = mcp_server, users = u\<rparr>
         | Some sid \<Rightarrow>
             if sid = [] then
               \<lparr>reply = missing_session_reply ser,
                response_headers = response, server = mcp_server, users = u\<rparr>
             else
               (case get_session mcp_server sid (now e) of
                  (None, mcp_server') \<Rightarrow>
                    \<lparr>reply = Response 400 ''No valid session ID provided'' None [],
                     response_headers = response, server = mcp_server', users = u\<rparr>
                | (Some session, mcp_server') \<Rightarrow>
                    if req_method request = ''notifications/initialized'' then
                      (let session' = session\<lparr>ready_for_operation := True\<rparr>
                       in \<lparr>reply = Response 202 [] None
                                      [(MCP_SESSION_ID_HEADER, Some (session_id session'))],
                           response_headers = response,
                           server = mcp_server'\<lparr>sessions :=
                                      (sessions mcp_server')(sid \<mapsto> session')\<rparr>,
                           users = u\<rparr>)
                    else if \<not> ready_for_operation session then
                      \<lparr>reply = missing_session_reply ser,
                       response_headers = response, server = mcp_server', users = u\<rparr>
                    else if req_method request = ''tools/list'' then
                      streaming_reply ser
                        (Ready (HasModelDumpJson (handle_tools_list mcp_server' request)))
                        (Some sid) response mcp_server' u
                    else if req_method request = ''tools/call'' then
                      streaming_reply ser
                        (Awaitable (\<lambda>v. case handle_tools_call mcp_server' request v of
                                           (r, v') \<Rightarrow> (map_sum id HasModelDumpJson r, v')))
                        (Some sid) response mcp_server' u
                    else
                      streaming_reply ser
                        (Ready (HasModelDumpJson
                           (MCPResponse_error (req_id request) (- 32602)
                              (''Method '' @ [CHR 0x27] @ req_method request @ [CHR 0x27]
                                 @ '' not found''))))
                        (Some sid) response mcp_server' u)))"

text \<open>Reading a reply: an entry of a response's result object, and whether a reply is an
  event stream.\<close>

definition result_entry :: "MCPResponse \<Rightarrow> string \<Rightarrow> json option" where
  "result_entry r k = (case result r of Some (JObj kvs) \<Rightarrow> map_of kvs k | _ \<Rightarrow> None)"

fun sse_framed :: "http_response \<Rightarrow> bool" where
  "sse_framed (StreamingResponse chunks mt hs) = (mt = Some ''text/event-stream'')"
| "sse_framed (Response sc body mt hs) = False"

section \<open>The registered tools and sample inputs\<close>

text \<open>
  The static part of the four tool classes among the source files; what \<open>execute\<close> does
  with the user-service client is the parameter \<open>ex\<close>. The schema of \<open>add_user\<close> comes
  from a model class and is the parameter \<open>schema\<close>.
\<close>

definition id_schema :: json where
  "id_schema =
     JObj [(''type'', JStr ''object''),
           (''properties'',
              JObj [(''id'', JObj [(''type'', JStr ''number''),
                                   (''description'', JStr ''User id'')])]),
           (''required'', JArr [JStr ''id''])]"

definition GetUserByIdTool :: "(json \<Rightarrow> 'u \<Rightarrow> (string + string) \<times> 'u) \<Rightarrow> 'u tool" where
  "GetUserByIdTool ex =
     \<lparr>name = ''get_user_by_id'', description = ''Gets user by id'',
      input_schema = id_schema, execute = ex\<rparr>"

definition SearchUsersTool :: "(json \<Rightarrow> 'u \<Rightarrow> (string + string) \<times> 'u) \<Rightarrow> 'u tool" where
  "SearchUsersTool ex =
     \<lparr>name = ''search_users'',
      description = ''Search users by name, surname, email, gender (all params are optional)'',
      input_schema =
        JObj [(''type'', JStr ''object''),
              (''properties'',
                 JObj [(''name'', JObj [(''type'', JStr ''string''),
                                        (''description'', JStr ''User name'')]),
                       (''surname'', JObj [(''type'', JStr ''string''),
                                           (''description'', JStr ''User surname'')]),
                       (''email'', JObj [(''type'', JStr ''string''),
                                         (''description'', JStr ''User email'')]),
                       (''gender'', JObj [(''type'', JStr ''string''),
                                          (''description'', JStr ''User gender''),
                                          (''enum'', JArr [JStr ''male'', JStr ''female''])])]),
              (''required'', JArr [])],
      execute = ex\<rparr>"

definition CreateUserTool ::
  "json \<Rightarrow> (json \<Rightarrow> 'u \<Rightarrow> (string + string) \<times> 'u) \<Rightarrow> 'u tool" where
  "CreateUserTool schema ex =
     \<lparr>name = ''add_user'', description = ''Adds new user'',
      input_schema = schema, execute = ex\<rparr>"

definition DeleteUserTool :: "(json \<Rightarrow> 'u \<Rightarrow> (string + string) \<times> 'u) \<Rightarrow> 'u tool" where
  "DeleteUserTool ex =
     \<lparr>name = ''delete_users'', description = ''Deletes users'',
      input_schema = id_schema, execute = ex\<rparr>"

text \<open>
  Sample inputs on which the model is run: a user service that counts the calls it
  receives, one tool body that answers and one that raises, a server holding the four
  tools, serializers that render a response by its error message, and one environment.
\<close>

definition answering :: "json \<Rightarrow> nat \<Rightarrow> (string + string) \<times> nat" where
  "answering arguments calls = (Inr ''ok'', Suc calls)"

definition raising :: "json \<Rightarrow> nat \<Rightarrow> (string + string) \<times> nat" where
  "raising arguments calls = (Inl ''connection refused'', Suc calls)"

definition sample_server :: "nat MCPServer" where
  "sample_server =
     MCPServer_init [GetUserByIdTool answering, SearchUsersTool answering,
                     CreateUserTool (JObj []) answering, DeleteUserTool raising]"

definition sample_render :: "MCPResponse \<Rightarrow> string" where
  "sample_render r =
     (case error r of None \<Rightarrow> ''result'' | Some e \<Rightarrow> ''error: '' @ message e)"

definition sample_serializers :: "(MCPResponse, unit) serializers" where
  "sample_serializers =
     \<lparr>model_dump_json = sample_render, model_dump_json_exclude_none = sample_render,
      dict_exclude_none = (\<lambda>d. JNull), dumps = (\<lambda>j. ''json'')\<rparr>"

definition sample_env :: env where
  "sample_env = \<lparr>uuid4 = 0x0123456789abcdef0123456789abcdef, now = 7\<rparr>"

definition sample_accept :: "string option" where
  "sample_accept = Some ''application/json, text/event-stream''"

text \<open>
  The sample server after one \<open>initialize\<close> request: it holds one session, not yet ready.
\<close>

definition initialize_request :: MCPRequest where
  "initialize_request =
     \<lparr>req_id = JInt 1, req_method = ''initialize'',
      params = Some [(''protocolVersion'', JStr ''2024-11-05'')]\<rparr>"

definition pending_server :: "nat MCPServer" where
  "pending_server =
     server (handle_mcp_request sample_serializers sample_env sample_server 0
               initialize_request [] sample_accept None)"

definition sample_sid :: string where
  "sample_sid = ''0123456789abcdef0123456789abcdef''"

section \<open>Facts about the string functions\<close>

text \<open>\<open>contains\<close> decides the substring relation.\<close>

lemma startswith_iff: "startswith t p \<longleftrightarrow> (\<exists>suf. t = p @ suf)"
proof
  assume "startswith t p"
  then have "t = p @ drop (length p) t"
    unfolding startswith_def using append_take_drop_id[of "length p" t] by simp
  then show "\<exists>suf. t = p @ suf" ..
next
  assume "\<exists>suf. t = p @ suf"
  then show "startswith t p" unfolding startswith_def by auto
qed

lemma contains_iff: "contains p t \<longleftrightarrow> (\<exists>pre suf. t = pre @ p @ suf)"
proof (induction t)
  case Nil
  then show ?case by auto
next
  case (Cons c cs)
  show ?case
  proof
    assume "contains p (c # cs)"
    then consider "startswith (c # cs) p" | "contains p cs" by auto
    then show "\<exists>pre suf. c # cs = pre @ p @ suf"
    proof cases
      case 1
      then obtain suf where "c # cs = p @ suf" unfolding startswith_iff by blast
      then have "c # cs = [] @ p @ suf" by simp
      then show ?thesis by blast
    next
      case 2
      then obtain pre suf where "cs = pre @ p @ suf" using Cons.IH by blast
      then have "c # cs = (c # pre) @ p @ suf" by simp
      then show ?thesis by blast
    qed
  next
    assume "\<exists>pre suf. c # cs = pre @ p @ suf"
    then obtain pre suf where eq: "c # cs = pre @ p @ suf" by blast
    show "contains p (c # cs)"
    proof (cases pre)
      case Nil
      with eq have "c # cs = p @ suf" by simp
      then have "startswith (c # cs) p" unfolding startswith_iff by blast
      then show ?thesis by simp
    next
      case (Cons a pre')
      with eq have "cs = pre' @ p @ suf" by simp
      then have "contains p cs" using Cons.IH by blast
      then show ?thesis by simp
    qed
  qed
qed

text \<open>The session id is the 32-digit hexadecimal rendering of the 128-bit value.\<close>

lemma hex_digit_hex: "d < 16 \<Longrightarrow> hex_digit d \<in> set ''0123456789abcdef''"
  unfolding hex_digit_def by (rule nth_mem) simp

lemma hexdigits_hex: "c \<in> set (hexdigits n) \<Longrightarrow> c \<in> set ''0123456789abcdef''"
proof (induction n arbitrary: c rule: hexdigits.induct)
  case (1 n)
  show ?case
  proof (cases "n < 16")
    case True
    then have "hexdigits n = [hex_digit n]" by (subst hexdigits.simps) simp
    with "1.prems" have "c = hex_digit n" by simp
    with True show ?thesis using hex_digit_hex by blast
  next
    case False
    have "hexdigits n = hexdigits (n div 16) @ [hex_digit (n mod 16)]"
      using False by (subst hexdigits.simps) simp
    with "1.prems" have "c \<in> set (hexdigits (n div 16) @ [hex_digit (n mod 16)])"
      by (simp only:)
    then have "c \<in> set (hexdigits (n div 16)) \<or> c = hex_digit (n mod 16)"
      by auto
    then show ?thesis
    proof
      assume "c \<in> set (hexdigits (n div 16))"
      with False "1.IH" show ?thesis by blast
    next
      assume c: "c = hex_digit (n mod 16)"
      have "n mod 16 < 16" by simp
      then show ?thesis unfolding c by (rule hex_digit_hex)
    qed
  qed
qed

lemma length_hexdigits: "n < 16 ^ Suc k \<Longrightarrow> length (hexdigits n) \<le> Suc k"
proof (induction k arbitrary: n)
  case 0
  then show ?case by (subst hexdigits.simps) simp
next
  case (Suc k)
  show ?case
  proof (cases "n < 16")
    case True
    then show ?thesis by (subst hexdigits.simps) simp
  next
    case False
    from Suc.prems have "n < 16 * 16 ^ Suc k" by simp
    then have "n div 16 < 16 ^ Suc k"
      by (simp add: less_mult_imp_div_less mult.commute)
    then have "length (hexdigits (n div 16)) \<le> Suc k" by (rule Suc.IH)
    with False show ?thesis by (subst hexdigits.simps) simp
  qed
qed

lemma length_format_032x: "n < 2 ^ 128 \<Longrightarrow> length (format_032x n) = 32"
proof -
  assume "n < 2 ^ 128"
  then have "n < 16 ^ Suc 31" by simp
  then have "length (hexdigits n) \<le> Suc 31" by (rule length_hexdigits)
  then show ?thesis by (simp add: format_032x_def Let_def)
qed

lemma format_032x_hex: "c \<in> set (format_032x n) \<Longrightarrow> c \<in> set ''0123456789abcdef''"
proof -
  assume "c \<in> set (format_032x n)"
  then have "c \<in> set (replicate (32 - length (hexdigits n)) CHR ''0'') \<or> c \<in> set (hexdigits n)"
    unfolding format_032x_def Let_def set_append by (rule UnE) blast+
  then show ?thesis
  proof
    assume "c \<in> set (replicate (32 - length (hexdigits n)) CHR ''0'')"
    then have "c = CHR ''0''" by (simp only: in_set_replicate)
    then show ?thesis by simp
  next
    assume "c \<in> set (hexdigits n)"
    then show ?thesis by (rule hexdigits_hex)
  qed
qed

lemma replace_absent: "old \<notin> set s \<Longrightarrow> replace old new s = s"
  by (induction s) (auto simp: replace_def)

lemma replace_append: "replace old new (s @ t) = replace old new s @ replace old new t"
  by (simp add: replace_def)

lemma replace_single: "replace old [] [old] = []"
  by (simp add: replace_def)

lemma take_drop_chain: "take n (drop k xs) @ drop (n + k) xs = drop k xs"
  using append_take_drop_id[of n "drop k xs"] by (simp add: add.commute)

lemma new_session_id_eq: "new_session_id e = format_032x (unat (uuid4 e))"
proof -
  define h where "h = format_032x (unat (uuid4 e))"
  have nodash: "CHR ''-'' \<notin> set h"
  proof
    assume "CHR ''-'' \<in> set h"
    then have "CHR ''-'' \<in> set ''0123456789abcdef''"
      unfolding h_def by (rule format_032x_hex)
    then show False by simp
  qed
  have t: "CHR ''-'' \<notin> set (take a (drop b h))" for a b
    using nodash by (meson in_set_takeD in_set_dropD)
  have d: "CHR ''-'' \<notin> set (drop b h)" for b
    using nodash by (meson in_set_dropD)
  have t0: "CHR ''-'' \<notin> set (take a h)" for a
    using nodash by (meson in_set_takeD)
  have "new_session_id e = take 8 h @ take 4 (drop 8 h) @ take 4 (drop 12 h)
          @ take 4 (drop 16 h) @ drop 20 h"
    unfolding new_session_id_def uuid_str_def Let_def h_def[symmetric]
    by (simp only: replace_append replace_absent[OF t] replace_absent[OF d]
          replace_absent[OF t0] replace_single append_Nil)
  also have "\<dots> = take 8 h @ take 4 (drop 8 h) @ take 4 (drop 12 h) @ drop 16 h"
    using take_drop_chain[of 4 16 h] by simp
  also have "\<dots> = take 8 h @ take 4 (drop 8 h) @ drop 12 h"
    using take_drop_chain[of 4 12 h] by simp
  also have "\<dots> = take 8 h @ drop 8 h"
    using take_drop_chain[of 4 8 h] by simp
  also have "\<dots> = h" by simp
  finally show ?thesis unfolding h_def .
qed

section \<open>Content negotiation: the claim\<close>

lemma sample_accept_ok: "validate_accept_header sample_accept"
  by code_simp

lemma json_only_refused: "\<not> validate_accept_header (Some ''application/json'')"
  by code_simp

lemma validate_accept_header_iff:
  "validate_accept_header accept \<longleftrightarrow>
     (\<exists>h. accept = Some h
        \<and> (\<exists>t \<in> set (split CHR '','' h).
              \<exists>pre suf. lower (strip t) = pre @ ''application/json'' @ suf)
        \<and> (\<exists>t \<in> set (split CHR '','' h).
              \<exists>pre suf. lower (strip t) = pre @ ''text/event-stream'' @ suf))"
proof (cases accept)
  case None
  then show ?thesis by (simp add: validate_accept_header_def)
next
  case (Some h)
  show ?thesis
  proof (cases "h = []")
    case True
    have "lower (strip []) = []" by (simp add: lower_def strip_def)
    with True Some show ?thesis by (simp add: validate_accept_header_def)
  next
    case False
    with Some show ?thesis
      by (simp add: validate_accept_header_def accept_types_def Let_def list_ex_iff
            contains_iff)
  qed
qed

text \<open>
  Claim C6. The \<open>Accept\<close> header is accepted exactly when, after splitting it on commas
  and stripping and lowercasing each element, some element contains \<open>application/json\<close>
  as a substring and some element contains \<open>text/event-stream\<close>. When the header is
  refused (an absent header included) the reply is status 406 with a plain JSON body, not
  an event stream, holding a JSON-RPC error of code -32600; the server, its sessions and
  the user service are left as they were.
\<close>

theorem accept_header_negotiation:
  "(validate_accept_header accept \<longleftrightarrow>
      (\<exists>h. accept = Some h
         \<and> (\<exists>t \<in> set (split CHR '','' h).
               \<exists>pre suf. lower (strip t) = pre @ ''application/json'' @ suf)
         \<and> (\<exists>t \<in> set (split CHR '','' h).
               \<exists>pre suf. lower (strip t) = pre @ ''text/event-stream'' @ suf)))
   \<and> (\<not> validate_accept_header accept \<longrightarrow>
        handle_mcp_request ser e srv u request response accept mcp_session_id =
          \<lparr>reply = Response 406
                     (model_dump_json ser
                        \<lparr>resp_id = JStr ''server-error'', result = None,
                         error = Some \<lparr>code = - 32600,
                           message = ''Client must accept both application/json and text/event-stream''\<rparr>\<rparr>)
                     (Some ''application/json'') [],
           response_headers = response, server = srv, users = u\<rparr>)"
proof
  show "validate_accept_header accept \<longleftrightarrow>
      (\<exists>h. accept = Some h
         \<and> (\<exists>t \<in> set (split CHR '','' h).
               \<exists>pre suf. lower (strip t) = pre @ ''application/json'' @ suf)
         \<and> (\<exists>t \<in> set (split CHR '','' h).
               \<exists>pre suf. lower (strip t) = pre @ ''text/event-stream'' @ suf))"
    by (rule validate_accept_header_iff)
next
  show "\<not> validate_accept_header accept \<longrightarrow>
        handle_mcp_request ser e srv u request response accept mcp_session_id =
          \<lparr>reply = Response 406
                     (model_dump_json ser
                        \<lparr>resp_id = JStr ''server-error'', result = None,
                         error = Some \<lparr>code = - 32600,
                           message = ''Client must accept both application/json and text/event-stream''\<rparr>\<rparr>)
                     (Some ''application/json'') [],
           response_headers = response, server = srv, users = u\<rparr>"
    by (simp add: handle_mcp_request_def MCPResponse_error_def)
qed

theorem accept_header_negotiation_witness:
  "\<not> validate_accept_header (Some ''application/json'')
   \<and> handle_mcp_request sample_serializers sample_env sample_server 0 initialize_request []
        (Some ''application/json'') None =
       \<lparr>reply = Response 406
            ''error: Client must accept both application/json and text/event-stream''
            (Some ''application/json'') [],
        response_headers = [], server = sample_server, users = 0\<rparr>"
  using accept_header_negotiation[of "Some ''application/json''" sample_serializers
          sample_env sample_server 0 initialize_request "[]" None]
        json_only_refused
  by (simp add: sample_serializers_def sample_render_def)

section \<open>Protocol version in the initialize result\<close>

text \<open>
  Claim C10. In \<open>handle_initialize\<close> the \<open>protocolVersion\<close> entry of the result is the
  server's own version (\<open>2024-11-05\<close> for a server as constructed) when \<open>params\<close> is absent
  or empty; it is null when \<open>params\<close> is non-empty and has no \<open>protocolVersion\<close> key; and
  otherwise it is the value the client sent, whatever it is, with no check against the
  supported versions.
\<close>

theorem initialize_protocol_version_passthrough:
  "(params request = None \<or> params request = Some [] \<longrightarrow>
      result_entry (fst (fst (handle_initialize srv request e))) ''protocolVersion''
        = Some (JStr (protocol_version srv)))
   \<and> (\<forall>ps. params request = Some ps \<and> ps \<noteq> [] \<and> map_of ps ''protocolVersion'' = None \<longrightarrow>
          result_entry (fst (fst (handle_initialize srv request e))) ''protocolVersion''
            = Some JNull)
   \<and> (\<forall>ps v. params request = Some ps \<and> ps \<noteq> [] \<and> map_of ps ''protocolVersion'' = Some v \<longrightarrow>
          result_entry (fst (fst (handle_initialize srv request e))) ''protocolVersion''
            = Some v)
   \<and> protocol_version (MCPServer_init tools_list :: 'u MCPServer) = ''2024-11-05''"
  by (auto simp: handle_initialize_def Let_def result_entry_def MCPResponse_result_def
        dict_get_def MCPServer_init_def)

theorem initialize_protocol_version_passthrough_witness:
  "result_entry (fst (fst (handle_initialize sample_server
       \<lparr>req_id = JInt 1, req_method = ''initialize'', params = None\<rparr> sample_env)))
     ''protocolVersion'' = Some (JStr ''2024-11-05'')
   \<and> result_entry (fst (fst (handle_initialize sample_server
       \<lparr>req_id = JInt 1, req_method = ''initialize'',
          params = Some [(''clientInfo'', JStr ''x'')]\<rparr> sample_env)))
     ''protocolVersion'' = Some JNull
   \<and> result_entry (fst (fst (handle_initialize sample_server
       \<lparr>req_id = JInt 1, req_method = ''initialize'',
          params = Some [(''protocolVersion'', JStr ''1999-01-01'')]\<rparr> sample_env)))
     ''protocolVersion'' = Some (JStr ''1999-01-01'')"
  using initialize_protocol_version_passthrough[where
          request = "\<lparr>req_id = JInt 1, req_method = ''initialize'', params = None\<rparr>"
          and srv = sample_server and e = sample_env]
        initialize_protocol_version_passthrough[where
          request = "\<lparr>req_id = JInt 1, req_method = ''initialize'',
             params = Some [(''clientInfo'', JStr ''x'')]\<rparr>"
          and srv = sample_server and e = sample_env]
        initialize_protocol_version_passthrough[where
          request = "\<lparr>req_id = JInt 1, req_method = ''initialize'',
             params = Some [(''protocolVersion'', JStr ''1999-01-01'')]\<rparr>"
          and srv = sample_server and e = sample_env]
  by (simp add: sample_server_def MCPServer_init_def)

text \<open>
  Claim C3. The claim says that a proposed version outside the supported set is replaced
  by the server's own version. \<open>handle_initialize\<close> never calls
  \<open>_validate_protocol_version\<close>: for a request proposing \<open>1999-01-01\<close> the result carries
  \<open>1999-01-01\<close>, where the negotiation function would have returned \<open>2024-11-05\<close>.
\<close>

theorem initialize_skips_version_check:
  "result_entry
     (fst (fst (handle_initialize sample_server
        \<lparr>req_id = JInt 1, req_method = ''initialize'',
           params = Some [(''protocolVersion'', JStr ''1999-01-01'')]\<rparr> sample_env)))
     ''protocolVersion'' = Some (JStr ''1999-01-01'')
   \<and> validate_protocol_version sample_server (JStr ''1999-01-01'') = JStr ''2024-11-05''"
  by (simp add: handle_initialize_def Let_def result_entry_def MCPResponse_result_def
        dict_get_def validate_protocol_version_def sample_server_def MCPServer_init_def)

section \<open>Tool calls\<close>

lemma sample_tools:
  "tools sample_server =
     [(''get_user_by_id'', GetUserByIdTool answering),
      (''search_users'', SearchUsersTool answering),
      (''add_user'', CreateUserTool (JObj []) answering),
      (''delete_users'', DeleteUserTool raising)]"
  by (simp add: sample_server_def MCPServer_init_def register_tools_def GetUserByIdTool_def
        SearchUsersTool_def CreateUserTool_def DeleteUserTool_def)

text \<open>
  Claim C2. For a \<open>tools/call\<close> request whose \<open>params\<close> name a registered tool (a name
  that is a non-empty string: the empty string counts as a missing name),
  \<open>handle_tools_call\<close> returns a response with a result and no error. When \<open>execute\<close>
  returns a text the result is \<open>{content: [{type: "text", text: <text>}]}\<close>; when it
  raises an exception with message \<open>m\<close> the result is
  \<open>{content: [{type: "text", text: "Tool execution error: m"}], isError: true}\<close>.
\<close>

theorem tools_call_registered_tool_result:
  assumes "params request = Some ps"
    and "map_of ps ''name'' = Some (JStr n)"
    and "n \<noteq> []"
    and "map_of (tools srv) n = Some t"
  shows "handle_tools_call srv request u =
     (case execute t (case map_of ps ''arguments'' of None \<Rightarrow> JObj [] | Some a \<Rightarrow> a) u of
        (Inr txt, u') \<Rightarrow>
          (Inr \<lparr>resp_id = req_id request,
                result = Some (JObj [(''content'',
                   JArr [JObj [(''type'', JStr ''text''), (''text'', JStr txt)]])]),
                error = None\<rparr>, u')
      | (Inl msg, u') \<Rightarrow>
          (Inr \<lparr>resp_id = req_id request,
                result = Some (JObj [(''content'',
                   JArr [JObj [(''type'', JStr ''text''),
                               (''text'', JStr (''Tool execution error: '' @ msg))]]),
                   (''isError'', JBool True)]),
                error = None\<rparr>, u'))"
proof -
  from assms(2) have ne: "ps \<noteq> []" by auto
  have nm: "dict_get ps ''name'' = JStr n" using assms(2) by (simp add: dict_get_def)
  show ?thesis
    unfolding handle_tools_call_def
    using assms(1,3,4) ne nm
    by (simp add: Let_def dict_get_default_def MCPResponse_result_def text_content_def
          split: prod.splits sum.splits)
qed

theorem tools_call_registered_tool_result_witness:
  "handle_tools_call sample_server
     \<lparr>req_id = JInt 5, req_method = ''tools/call'',
        params = Some [(''name'', JStr ''get_user_by_id''),
                       (''arguments'', JObj [(''id'', JInt 3)])]\<rparr> 0 =
     (Inr \<lparr>resp_id = JInt 5,
           result = Some (JObj [(''content'',
              JArr [JObj [(''type'', JStr ''text''), (''text'', JStr ''ok'')]])]),
           error = None\<rparr>, 1)
   \<and> handle_tools_call sample_server
     \<lparr>req_id = JInt 6, req_method = ''tools/call'',
        params = Some [(''name'', JStr ''delete_users'')]\<rparr> 0 =
     (Inr \<lparr>resp_id = JInt 6,
           result = Some (JObj [(''content'',
              JArr [JObj [(''type'', JStr ''text''),
                          (''text'', JStr ''Tool execution error: connection refused'')]]),
              (''isError'', JBool True)]),
           error = None\<rparr>, 1)"
proof -
  have a: "map_of (tools sample_server) ''get_user_by_id'' = Some (GetUserByIdTool answering)"
    by (simp add: sample_tools)
  have b: "map_of (tools sample_server) ''delete_users'' = Some (DeleteUserTool raising)"
    by (simp add: sample_tools)
  show ?thesis
    using tools_call_registered_tool_result[where srv = sample_server and u = 0
            and request = "\<lparr>req_id = JInt 5, req_method = ''tools/call'',
               params = Some [(''name'', JStr ''get_user_by_id''),
                              (''arguments'', JObj [(''id'', JInt 3)])]\<rparr>"
            and n = "''get_user_by_id''", OF _ _ _ a]
          tools_call_registered_tool_result[where srv = sample_server and u = 0
            and request = "\<lparr>req_id = JInt 6, req_method = ''tools/call'',
               params = Some [(''name'', JStr ''delete_users'')]\<rparr>"
            and n = "''delete_users''", OF _ _ _ b]
    by (simp add: GetUserByIdTool_def DeleteUserTool_def answering_def raising_def)
qed

text \<open>
  Claim C4. The claim gives the error codes -32602 (absent \<open>params\<close>, absent name) and
  -32601 (unknown tool), as the comments of \<open>handle_tools_call\<close> do. The code passes the
  positive numbers 32602 and 32601. No tool is executed on these paths: the user service
  is returned as it was.
\<close>

theorem tools_call_error_codes_positive:
  "handle_tools_call sample_server
     \<lparr>req_id = JInt 7, req_method = ''tools/call'', params = None\<rparr> 0 =
     (Inr \<lparr>resp_id = JInt 7, result = None,
           error = Some \<lparr>code = 32602, message = ''Missing parameters''\<rparr>\<rparr>, 0)
   \<and> handle_tools_call sample_server
     \<lparr>req_id = JInt 8, req_method = ''tools/call'',
        params = Some [(''arguments'', JObj [])]\<rparr> 0 =
     (Inr \<lparr>resp_id = JInt 8, result = None,
           error = Some \<lparr>code = 32602, message = ''Missing required parameter: name''\<rparr>\<rparr>, 0)
   \<and> handle_tools_call sample_server
     \<lparr>req_id = JInt 9, req_method = ''tools/call'',
        params = Some [(''name'', JStr ''drop_table'')]\<rparr> 0 =
     (Inr \<lparr>resp_id = JInt 9, result = None,
           error = Some \<lparr>code = 32601,
             message = ''Tool '' @ [CHR 0x27] @ ''drop_table'' @ [CHR 0x27] @ '' not found''\<rparr>\<rparr>, 0)"
  by (simp add: handle_tools_call_def Let_def dict_get_def dict_get_default_def
        MCPResponse_error_def tool_not_found_def sample_tools)

section \<open>The endpoint and the session store\<close>

lemma length_new_session_id: "length (new_session_id e) = 32"
proof -
  have "unat (uuid4 e) < 2 ^ 128" using unsigned_less[of "uuid4 e"] by simp
  then show ?thesis unfolding new_session_id_eq by (rule length_format_032x)
qed

lemma new_session_id_nonempty: "new_session_id e \<noteq> []"
  using length_new_session_id[of e] by auto

lemma server_streaming_reply: "server (streaming_reply ser m sid response srv u) = srv"
  by (simp add: streaming_reply_def split: prod.splits)

lemma response_headers_streaming_reply:
  "response_headers (streaming_reply ser m sid response srv u) = response"
  by (simp add: streaming_reply_def split: prod.splits)

lemma headers_streaming_reply:
  "map_of (headers (reply (streaming_reply ser m sid response srv u))) MCP_SESSION_ID_HEADER = Some sid"
  by (simp add: streaming_reply_def MCP_SESSION_ID_HEADER_def split: prod.splits)

lemma sessions_handle_initialize:
  "sessions (snd (handle_initialize srv request e)) =
     (sessions srv)(new_session_id e \<mapsto> MCPSession_init (new_session_id e) (now e))"
  by (simp add: handle_initialize_def Let_def)

lemma snd_fst_handle_initialize: "snd (fst (handle_initialize srv request e)) = new_session_id e"
  by (simp add: handle_initialize_def Let_def)

text \<open>What one request does to the session store.\<close>

lemma sessions_after_request:
  "sessions (server (handle_mcp_request ser e srv u request response accept mcp_session_id)) =
     (if \<not> validate_accept_header accept then sessions srv
      else if req_method request = ''initialize'' then
        (sessions srv)(new_session_id e \<mapsto> MCPSession_init (new_session_id e) (now e))
      else
        (case mcp_session_id of
           None \<Rightarrow> sessions srv
         | Some sid \<Rightarrow>
             if sid = [] then sessions srv
             else
               (case sessions srv sid of
                  None \<Rightarrow> sessions srv
                | Some s \<Rightarrow>
                    if req_method request = ''notifications/initialized'' then
                      (sessions srv)(sid \<mapsto> s\<lparr>last_activity := now e, ready_for_operation := True\<rparr>)
                    else (sessions srv)(sid \<mapsto> s\<lparr>last_activity := now e\<rparr>))))"
proof (cases "validate_accept_header accept")
  case False
  then show ?thesis by (simp add: handle_mcp_request_def)
next
  case acc: True
  show ?thesis
  proof (cases "req_method request = ''initialize''")
    case True
    obtain r i s' where hi: "handle_initialize srv request e = ((r, i), s')"
      by (metis surj_pair)
    have "sessions s' = (sessions srv)(new_session_id e \<mapsto> MCPSession_init (new_session_id e) (now e))"
      using sessions_handle_initialize[of srv request e] hi by simp
    with acc True hi show ?thesis
      by (simp add: handle_mcp_request_def server_streaming_reply)
  next
    case ni: False
    show ?thesis
    proof (cases mcp_session_id)
      case None
      with acc ni show ?thesis by (simp add: handle_mcp_request_def)
    next
      case (Some sid)
      show ?thesis
      proof (cases "sid = []")
        case True
        with acc ni Some show ?thesis by (simp add: handle_mcp_request_def)
      next
        case ne: False
        show ?thesis
        proof (cases "sessions srv sid")
          case None
          with acc ni Some ne show ?thesis
            by (simp add: handle_mcp_request_def get_session_def)
        next
          case (Some s)
          with acc ni \<open>mcp_session_id = Some sid\<close> ne show ?thesis
            by (simp add: handle_mcp_request_def get_session_def Let_def
                  server_streaming_reply)
        qed
      qed
    qed
  qed
qed

lemma sample_sid_eq: "new_session_id sample_env = sample_sid"
  unfolding new_session_id_eq
  by (simp add: sample_env_def format_032x_def hexdigits.simps hex_digit_def sample_sid_def
        Let_def)

lemma now_sample_env: "now sample_env = 7"
  by (simp add: sample_env_def)

lemma initialize_request_method: "req_method initialize_request = ''initialize''"
  by (simp add: initialize_request_def)

lemma sessions_pending_server:
  "sessions pending_server =
     (sessions sample_server)(sample_sid \<mapsto> MCPSession_init sample_sid 7)"
  unfolding pending_server_def sessions_after_request
  using sample_accept_ok initialize_request_method
  by (simp add: sample_sid_eq now_sample_env)

lemma pending_session:
  "sessions pending_server sample_sid =
     Some \<lparr>session_id = sample_sid, ready_for_operation = False, created_at = 7,
           last_activity = 7\<rparr>"
  by (simp add: sessions_pending_server MCPSession_init_def)

lemma reply_initialize:
  assumes "validate_accept_header accept" and "req_method request = ''initialize''"
  shows "handle_mcp_request ser e srv u request response accept mcp_session_id =
     streaming_reply ser (Ready (HasModelDumpJson (fst (fst (handle_initialize srv request e)))))
       (Some (new_session_id e)) (AList.update MCP_SESSION_ID_HEADER (new_session_id e) response)
       (snd (handle_initialize srv request e)) u"
proof -
  obtain r i s' where hi: "handle_initialize srv request e = ((r, i), s')"
    by (metis surj_pair)
  have i: "i = new_session_id e" using snd_fst_handle_initialize[of srv request e] hi by simp
  show ?thesis
    using assms hi i new_session_id_nonempty[of e] by (simp add: handle_mcp_request_def)
qed

text \<open>
  Claim C7. An \<open>initialize\<close> request (one that passed content negotiation) creates a
  session whose id is the 128-bit value rendered as 32 hexadecimal characters with no
  separators; the session is stored under that id with \<open>ready_for_operation\<close> false and
  both timestamps set to the clock reading, and the id is sent in the \<open>Mcp-Session-Id\<close>
  header of the reply (and set on the injected response object).
\<close>

theorem initialize_creates_session:
  assumes "validate_accept_header accept" and "req_method request = ''initialize''"
  shows "new_session_id e = format_032x (unat (uuid4 e))
    \<and> length (new_session_id e) = 32
    \<and> (\<forall>c \<in> set (new_session_id e). c \<in> set ''0123456789abcdef'')
    \<and> sessions (server (handle_mcp_request ser e srv u request response accept mcp_session_id))
         (new_session_id e) =
        Some \<lparr>session_id = new_session_id e, ready_for_operation = False,
              created_at = now e, last_activity = now e\<rparr>
    \<and> map_of (headers (reply
          (handle_mcp_request ser e srv u request response accept mcp_session_id)))
         MCP_SESSION_ID_HEADER = Some (Some (new_session_id e))
    \<and> map_of (response_headers
          (handle_mcp_request ser e srv u request response accept mcp_session_id))
         MCP_SESSION_ID_HEADER = Some (new_session_id e)"
proof -
  have hex: "\<forall>c \<in> set (new_session_id e). c \<in> set ''0123456789abcdef''"
    unfolding new_session_id_eq using format_032x_hex by blast
  have store: "sessions (server (handle_mcp_request ser e srv u request response accept
        mcp_session_id)) (new_session_id e) =
      Some \<lparr>session_id = new_session_id e, ready_for_operation = False,
            created_at = now e, last_activity = now e\<rparr>"
    using assms by (simp add: sessions_after_request MCPSession_init_def)
  have hdr: "map_of (headers (reply
        (handle_mcp_request ser e srv u request response accept mcp_session_id)))
      MCP_SESSION_ID_HEADER = Some (Some (new_session_id e))"
    unfolding reply_initialize[OF assms] by (rule headers_streaming_reply)
  have inj: "map_of (response_headers
        (handle_mcp_request ser e srv u request response accept mcp_session_id))
      MCP_SESSION_ID_HEADER = Some (new_session_id e)"
    unfolding reply_initialize[OF assms] response_headers_streaming_reply
    by (simp add: update_conv')
  from new_session_id_eq length_new_session_id hex store hdr inj show ?thesis by blast
qed

theorem initialize_creates_session_witness:
  "validate_accept_header sample_accept
   \<and> req_method initialize_request = ''initialize''
   \<and> length sample_sid = 32
   \<and> sessions pending_server sample_sid =
       Some \<lparr>session_id = sample_sid, ready_for_operation = False,
             created_at = 7, last_activity = 7\<rparr>
   \<and> map_of (headers (reply
         (handle_mcp_request sample_serializers sample_env sample_server 0
            initialize_request [] sample_accept None)))
        MCP_SESSION_ID_HEADER = Some (Some sample_sid)"
  using initialize_creates_session[OF sample_accept_ok initialize_request_method,
          of sample_env sample_serializers sample_server 0 "[]" None]
        sample_accept_ok initialize_request_method
  by (simp add: sample_sid_eq pending_server_def now_sample_env)

section \<open>Requests before readiness\<close>

lemma reply_not_ready:
  assumes "validate_accept_header accept"
    and "req_method request \<noteq> ''initialize''"
    and "req_method request \<noteq> ''notifications/initialized''"
    and "sessions srv sid = Some s"
    and "\<not> ready_for_operation s"
  shows "reply (handle_mcp_request ser e srv u request response accept (Some sid)) =
           missing_session_reply ser
       \<and> users (handle_mcp_request ser e srv u request response accept (Some sid)) = u"
proof (cases "sid = []")
  case True
  with assms(1,2) show ?thesis by (simp add: handle_mcp_request_def)
next
  case False
  with assms show ?thesis
    by (simp add: handle_mcp_request_def get_session_def Let_def)
qed

lemma missing_session_reply_plain:
  "missing_session_reply ser =
     Response 400
       (model_dump_json ser
          \<lparr>resp_id = JStr ''server-error'', result = None,
           error = Some \<lparr>code = - 32600, message = ''Missing session ID''\<rparr>\<rparr>)
       (Some ''application/json'') []"
  by (simp add: missing_session_reply_def MCPResponse_error_def)

lemma tools_call_method:
  "req_method \<lparr>req_id = JInt 2, req_method = ''tools/call'',
      params = Some [(''name'', JStr ''get_user_by_id'')]\<rparr> \<noteq> ''initialize''"
  "req_method \<lparr>req_id = JInt 2, req_method = ''tools/call'',
      params = Some [(''name'', JStr ''get_user_by_id'')]\<rparr> \<noteq> ''notifications/initialized''"
  by simp_all

lemma pending_not_ready:
  "\<not> ready_for_operation \<lparr>session_id = sample_sid, ready_for_operation = False,
       created_at = 7, last_activity = 7\<rparr>"
  by simp

text \<open>
  Claim C5, as the code has it. For a request that passed content negotiation, whose method
  is neither \<open>initialize\<close> nor \<open>notifications/initialized\<close> and whose session-id header
  resolves to a session with \<open>ready_for_operation\<close> still false, the reply is status 400
  with the JSON-RPC error of code -32600 and message \<open>Missing session ID\<close>, sent as a plain
  JSON body of media type \<open>application/json\<close> and not as an event stream. No tool runs:
  the user service is left as it was, so \<open>tools/call\<close> before readiness never gives a
  tool result.
\<close>

theorem not_ready_request_refused:
  assumes "validate_accept_header accept"
    and "req_method request \<noteq> ''initialize''"
    and "req_method request \<noteq> ''notifications/initialized''"
    and "sessions srv sid = Some s"
    and "\<not> ready_for_operation s"
  shows "reply (handle_mcp_request ser e srv u request response accept (Some sid)) =
           Response 400
             (model_dump_json ser
                \<lparr>resp_id = JStr ''server-error'', result = None,
                 error = Some \<lparr>code = - 32600, message = ''Missing session ID''\<rparr>\<rparr>)
             (Some ''application/json'') []
       \<and> \<not> sse_framed (reply (handle_mcp_request ser e srv u request response accept (Some sid)))
       \<and> users (handle_mcp_request ser e srv u request response accept (Some sid)) = u"
proof -
  note r = reply_not_ready[OF assms, of ser e u response]
  from r have "reply (handle_mcp_request ser e srv u request response accept (Some sid)) =
      missing_session_reply ser" by (rule conjunct1)
  then have shape: "reply (handle_mcp_request ser e srv u request response accept (Some sid)) =
      Response 400
        (model_dump_json ser
           \<lparr>resp_id = JStr ''server-error'', result = None,
            error = Some \<lparr>code = - 32600, message = ''Missing session ID''\<rparr>\<rparr>)
        (Some ''application/json'') []"
    by (simp only: missing_session_reply_plain)
  then have "\<not> sse_framed (reply (handle_mcp_request ser e srv u request response accept
      (Some sid)))" by simp
  with shape r show ?thesis by blast
qed

theorem not_ready_request_refused_witness:
  "reply (handle_mcp_request sample_serializers sample_env pending_server 0
       \<lparr>req_id = JInt 2, req_method = ''tools/call'',
          params = Some [(''name'', JStr ''get_user_by_id'')]\<rparr> [] sample_accept
       (Some sample_sid)) =
     Response 400 ''error: Missing session ID'' (Some ''application/json'') []
   \<and> users (handle_mcp_request sample_serializers sample_env pending_server 0
       \<lparr>req_id = JInt 2, req_method = ''tools/call'',
          params = Some [(''name'', JStr ''get_user_by_id'')]\<rparr> [] sample_accept
       (Some sample_sid)) = 0"
  using not_ready_request_refused[OF sample_accept_ok tools_call_method pending_session
          pending_not_ready, of sample_serializers sample_env 0 "[]"]
  by (simp add: sample_serializers_def sample_render_def)

text \<open>
  Claim C5 as stated says the error is delivered SSE-framed. For the sample server after
  one \<open>initialize\<close>, a \<open>tools/call\<close> carrying the pending session's id gets a reply
  that is not an event stream.
\<close>

theorem not_ready_reply_is_plain_json:
  "validate_accept_header sample_accept
   \<and> sessions pending_server sample_sid =
       Some \<lparr>session_id = sample_sid, ready_for_operation = False,
             created_at = 7, last_activity = 7\<rparr>
   \<and> \<not> sse_framed
       (reply (handle_mcp_request sample_serializers sample_env pending_server 0
          \<lparr>req_id = JInt 2, req_method = ''tools/call'',
             params = Some [(''name'', JStr ''get_user_by_id'')]\<rparr> [] sample_accept
          (Some sample_sid)))"
proof -
  have "reply (handle_mcp_request sample_serializers sample_env pending_server 0
          \<lparr>req_id = JInt 2, req_method = ''tools/call'',
             params = Some [(''name'', JStr ''get_user_by_id'')]\<rparr> [] sample_accept
          (Some sample_sid)) = missing_session_reply sample_serializers"
    using reply_not_ready[OF sample_accept_ok tools_call_method pending_session
            pending_not_ready] by blast
  then have "\<not> sse_framed
       (reply (handle_mcp_request sample_serializers sample_env pending_server 0
          \<lparr>req_id = JInt 2, req_method = ''tools/call'',
             params = Some [(''name'', JStr ''get_user_by_id'')]\<rparr> [] sample_accept
          (Some sample_sid)))"
    by (simp add: missing_session_reply_plain)
  with sample_accept_ok pending_session show ?thesis by blast
qed

section \<open>Readiness\<close>

text \<open>
  Claim C1. After the \<open>initialize\<close> request that creates it, a session has
  \<open>ready_for_operation\<close> false. Whatever the request, a session that is ready afterwards
  either was ready before, or the request was \<open>notifications/initialized\<close> carrying
  exactly that session's id (and passed content negotiation, the session existing); no
  other request sets the flag.
\<close>

theorem ready_only_by_initialized_notification:
  "(validate_accept_header accept \<and> req_method request = ''initialize'' \<longrightarrow>
      (\<exists>s. sessions (server (handle_mcp_request ser e srv u request response accept
                mcp_session_id)) (new_session_id e) = Some s
           \<and> \<not> ready_for_operation s))
   \<and> (\<forall>sid s'.
         sessions (server (handle_mcp_request ser e srv u request response accept
            mcp_session_id)) sid = Some s'
         \<and> ready_for_operation s' \<longrightarrow>
           (\<exists>s. sessions srv sid = Some s \<and> ready_for_operation s)
           \<or> (validate_accept_header accept
               \<and> req_method request = ''notifications/initialized''
               \<and> mcp_session_id = Some sid
               \<and> (\<exists>s. sessions srv sid = Some s)))"
proof (intro conjI impI allI)
  assume "validate_accept_header accept \<and> req_method request = ''initialize''"
  then show "\<exists>s. sessions (server (handle_mcp_request ser e srv u request response accept
                mcp_session_id)) (new_session_id e) = Some s \<and> \<not> ready_for_operation s"
    by (simp add: sessions_after_request MCPSession_init_def)
next
  fix sid s'
  assume a: "sessions (server (handle_mcp_request ser e srv u request response accept
            mcp_session_id)) sid = Some s' \<and> ready_for_operation s'"
  show "(\<exists>s. sessions srv sid = Some s \<and> ready_for_operation s)
        \<or> (validate_accept_header accept
            \<and> req_method request = ''notifications/initialized''
            \<and> mcp_session_id = Some sid
            \<and> (\<exists>s. sessions srv sid = Some s))"
  proof (cases "validate_accept_header accept")
    case False
    with a show ?thesis by (simp add: sessions_after_request)
  next
    case acc: True
    show ?thesis
    proof (cases "req_method request = ''initialize''")
      case True
      with acc a show ?thesis
        by (auto simp: sessions_after_request MCPSession_init_def split: if_splits)
    next
      case ni: False
      show ?thesis
      proof (cases mcp_session_id)
        case None
        with acc ni a show ?thesis by (simp add: sessions_after_request)
      next
        case (Some k)
        show ?thesis
        proof (cases "k = []")
          case True
          with acc ni a Some show ?thesis by (simp add: sessions_after_request)
        next
          case ne: False
          show ?thesis
          proof (cases "sessions srv k")
            case None
            with acc ni a Some ne show ?thesis by (simp add: sessions_after_request)
          next
            case (Some s)
            note k = ne Some
            show ?thesis
            proof (cases "req_method request = ''notifications/initialized''")
              case True
              with acc ni a \<open>mcp_session_id = Some k\<close> k show ?thesis
                by (auto simp: sessions_after_request split: if_splits)
            next
              case False
              with acc ni a \<open>mcp_session_id = Some k\<close> k show ?thesis
                by (auto simp: sessions_after_request split: if_splits)
            qed
          qed
        qed
      qed
    qed
  qed
qed

theorem ready_only_by_initialized_notification_witness:
  "sessions pending_server sample_sid =
     Some \<lparr>session_id = sample_sid, ready_for_operation = False,
           created_at = 7, last_activity = 7\<rparr>
   \<and> sessions (server (handle_mcp_request sample_serializers sample_env pending_server 0
         \<lparr>req_id = JNull, req_method = ''notifications/initialized'', params = None\<rparr>
         [] sample_accept (Some sample_sid))) sample_sid =
     Some \<lparr>session_id = sample_sid, ready_for_operation = True,
           created_at = 7, last_activity = 7\<rparr>
   \<and> sessions (server (handle_mcp_request sample_serializers sample_env pending_server 0
         \<lparr>req_id = JInt 2, req_method = ''tools/list'', params = None\<rparr>
         [] sample_accept (Some sample_sid))) sample_sid =
     Some \<lparr>session_id = sample_sid, ready_for_operation = False,
           created_at = 7, last_activity = 7\<rparr>"
  using ready_only_by_initialized_notification[of sample_accept initialize_request
          sample_serializers sample_env sample_server 0 "[]" None]
        ready_only_by_initialized_notification[of sample_accept
          "\<lparr>req_id = JNull, req_method = ''notifications/initialized'', params = None\<rparr>"
          sample_serializers sample_env pending_server 0 "[]" "Some sample_sid"]
        sample_accept_ok pending_session
  by (simp add: sessions_after_request now_sample_env sample_sid_def)

section \<open>The initialized notification, twice\<close>

lemma reply_initialized:
  assumes "validate_accept_header accept"
    and "req_method request = ''notifications/initialized''"
    and "sid \<noteq> []"
    and "sessions srv sid = Some s"
  shows "reply (handle_mcp_request ser e srv u request response accept (Some sid)) =
           Response 202 [] None [(MCP_SESSION_ID_HEADER, Some (session_id s))]
       \<and> users (handle_mcp_request ser e srv u request response accept (Some sid)) = u"
  using assms by (simp add: handle_mcp_request_def get_session_def Let_def)

text \<open>
  Claim C9. For a session in the store, \<open>notifications/initialized\<close> issued twice gives
  both times the reply 202 with an empty body and the \<open>Mcp-Session-Id\<close> header (the
  session's own id), and the session is ready after the first and after the second
  request; only \<open>last_activity\<close> moves.
\<close>

theorem initialized_notification_idempotent:
  assumes "validate_accept_header accept"
    and "req_method r1 = ''notifications/initialized''"
    and "req_method r2 = ''notifications/initialized''"
    and "sid \<noteq> []"
    and "sessions srv sid = Some s"
  shows "reply (handle_mcp_request ser e1 srv u r1 resp1 accept (Some sid)) =
           Response 202 [] None [(MCP_SESSION_ID_HEADER, Some (session_id s))]
       \<and> sessions (server (handle_mcp_request ser e1 srv u r1 resp1 accept (Some sid))) sid =
           Some (s\<lparr>last_activity := now e1, ready_for_operation := True\<rparr>)
       \<and> reply (handle_mcp_request ser e2
             (server (handle_mcp_request ser e1 srv u r1 resp1 accept (Some sid)))
             (users (handle_mcp_request ser e1 srv u r1 resp1 accept (Some sid)))
             r2 resp2 accept (Some sid)) =
           Response 202 [] None [(MCP_SESSION_ID_HEADER, Some (session_id s))]
       \<and> sessions (server (handle_mcp_request ser e2
             (server (handle_mcp_request ser e1 srv u r1 resp1 accept (Some sid)))
             (users (handle_mcp_request ser e1 srv u r1 resp1 accept (Some sid)))
             r2 resp2 accept (Some sid))) sid =
           Some (s\<lparr>last_activity := now e2, ready_for_operation := True\<rparr>)"
proof -
  let ?o1 = "handle_mcp_request ser e1 srv u r1 resp1 accept (Some sid)"
  have ninit: "req_method r1 \<noteq> ''initialize''" "req_method r2 \<noteq> ''initialize''"
    using assms(2,3) by simp_all
  have r1: "reply ?o1 = Response 202 [] None [(MCP_SESSION_ID_HEADER, Some (session_id s))]"
    using reply_initialized[OF assms(1,2,4,5)] by blast
  have s1: "sessions (server ?o1) sid =
      Some (s\<lparr>last_activity := now e1, ready_for_operation := True\<rparr>)"
    using assms ninit by (simp add: sessions_after_request)
  have r2: "reply (handle_mcp_request ser e2 (server ?o1) (users ?o1) r2 resp2 accept (Some sid)) =
      Response 202 [] None
        [(MCP_SESSION_ID_HEADER,
          Some (session_id (s\<lparr>last_activity := now e1, ready_for_operation := True\<rparr>)))]"
    using reply_initialized[OF assms(1,3,4) s1] by blast
  have s2: "sessions (server (handle_mcp_request ser e2 (server ?o1) (users ?o1) r2 resp2
        accept (Some sid))) sid =
      Some (s\<lparr>last_activity := now e2, ready_for_operation := True\<rparr>)"
    using assms(1,3,4) ninit s1 by (simp add: sessions_after_request[of ser e2])
  from r1 s1 r2 s2 show ?thesis by simp
qed

theorem initialized_notification_idempotent_witness:
  "reply (handle_mcp_request sample_serializers sample_env pending_server 0
       \<lparr>req_id = JNull, req_method = ''notifications/initialized'', params = None\<rparr>
       [] sample_accept (Some sample_sid)) =
     Response 202 [] None [(''Mcp-Session-Id'', Some sample_sid)]
   \<and> reply (handle_mcp_request sample_serializers sample_env
       (server (handle_mcp_request sample_serializers sample_env pending_server 0
          \<lparr>req_id = JNull, req_method = ''notifications/initialized'', params = None\<rparr>
          [] sample_accept (Some sample_sid)))
       (users (handle_mcp_request sample_serializers sample_env pending_server 0
          \<lparr>req_id = JNull, req_method = ''notifications/initialized'', params = None\<rparr>
          [] sample_accept (Some sample_sid)))
       \<lparr>req_id = JNull, req_method = ''notifications/initialized'', params = None\<rparr>
       [] sample_accept (Some sample_sid)) =
     Response 202 [] None [(''Mcp-Session-Id'', Some sample_sid)]
   \<and> sessions (server (handle_mcp_request sample_serializers sample_env
       (server (handle_mcp_request sample_serializers sample_env pending_server 0
          \<lparr>req_id = JNull, req_method = ''notifications/initialized'', params = None\<rparr>
          [] sample_accept (Some sample_sid)))
       (users (handle_mcp_request sample_serializers sample_env pending_server 0
          \<lparr>req_id = JNull, req_method = ''notifications/initialized'', params = None\<rparr>
          [] sample_accept (Some sample_sid)))
       \<lparr>req_id = JNull, req_method = ''notifications/initialized'', params = None\<rparr>
       [] sample_accept (Some sample_sid))) sample_sid =
     Some \<lparr>session_id = sample_sid, ready_for_operation = True,
           created_at = 7, last_activity = 7\<rparr>"
proof -
  have m: "req_method \<lparr>req_id = JNull, req_method = ''notifications/initialized'',
      params = None\<rparr> = ''notifications/initialized''" by simp
  have ne: "sample_sid \<noteq> []" by (simp add: sample_sid_def)
  show ?thesis
    using initialized_notification_idempotent[OF sample_accept_ok m m ne pending_session,
            of sample_serializers sample_env 0 "[]" sample_env "[]"]
    by (simp add: MCP_SESSION_ID_HEADER_def now_sample_env)
qed

section \<open>Response framing: the claim\<close>

text \<open>
  The chunks of a stream are the frames of the objects its messages stand for; the
  sentinel follows unless an awaitable raised.
\<close>

lemma create_sse_stream_awaited:
  "create_sse_stream ser messages u =
     (case awaited_objects messages u of
        ((obs, None), u') \<Rightarrow>
          ((map (\<lambda>ob. sse_frame (payload ser ob)) obs @ [sse_done], None), u')
      | ((obs, Some e), u') \<Rightarrow>
          ((map (\<lambda>ob. sse_frame (payload ser ob)) obs, Some e), u'))"
proof (induction messages arbitrary: u)
  case Nil
  show ?case by simp
next
  case (Cons m messages)
  show ?case
  proof (cases m)
    case (Ready ob)
    show ?thesis
      unfolding Ready using Cons.IH[of u]
      by (simp split: prod.splits option.splits)
  next
    case (Awaitable aw)
    show ?thesis
    proof (cases "aw u")
      case (Pair r u1)
      show ?thesis
      proof (cases r)
        case (Inl e)
        with Pair show ?thesis unfolding Awaitable by simp
      next
        case (Inr ob)
        with Pair show ?thesis
          unfolding Awaitable using Cons.IH[of u1]
          by (simp split: prod.splits option.splits)
      qed
    qed
  qed
qed

lemma awaited_objects_ready: "awaited_objects (map Ready obs) u = ((obs, None), u)"
  by (induction obs) simp_all

lemma sse_frame_payload:
  "sse_frame (payload ser ob) =
     ''data: ''
       @ (case ob of
            HasModelDumpJson m \<Rightarrow> model_dump_json_exclude_none ser m
          | HasDict d \<Rightarrow> dumps ser (dict_exclude_none ser d)
          | Other j \<Rightarrow> dumps ser j)
       @ [CHR 0x0A, CHR 0x0A]"
  by (cases ob) (simp_all add: sse_frame_def)

lemma sample_tools_call:
  "handle_tools_call sample_server
     \<lparr>req_id = JInt 5, req_method = ''tools/call'',
        params = Some [(''name'', JStr ''get_user_by_id'')]\<rparr> 0 =
     (Inr \<lparr>resp_id = JInt 5,
           result = Some (JObj [(''content'',
              JArr [JObj [(''type'', JStr ''text''), (''text'', JStr ''ok'')]])]),
           error = None\<rparr>, 1)"
  by (simp add: handle_tools_call_def Let_def dict_get_def dict_get_default_def
        MCPResponse_result_def text_content_def sample_tools GetUserByIdTool_def
        answering_def)

lemma sample_awaited:
  "awaited_objects
     [Awaitable (\<lambda>v. case handle_tools_call sample_server
                          \<lparr>req_id = JInt 5, req_method = ''tools/call'',
                             params = Some [(''name'', JStr ''get_user_by_id'')]\<rparr> v of
                        (r, v') \<Rightarrow> (map_sum id HasModelDumpJson r, v')),
      Ready (Other JNull)] 0 =
     (([HasModelDumpJson
          \<lparr>resp_id = JInt 5,
           result = Some (JObj [(''content'',
              JArr [JObj [(''type'', JStr ''text''), (''text'', JStr ''ok'')]])]),
           error = None\<rparr>,
        Other JNull], None), 1)"
  by (simp add: sample_tools_call)

text \<open>
  Claim C8. For every finite sequence of response objects the framer emits one frame per
  object, in input order: \<open>data: \<close>, then the object's serialization
  (\<open>model_dump_json(exclude_none=True)\<close> when the object has it, else \<open>json.dumps\<close> of its
  \<open>dict(exclude_none=True)\<close>, else \<open>json.dumps\<close> of the object), then two newlines; after
  them comes exactly one final frame \<open>data: [DONE]\<close> with two newlines, and nothing is
  raised. The empty sequence gives the sentinel alone. This holds when the objects are at
  hand, and as well when messages are awaitables that yield their objects on being
  awaited: the frames are those of the yielded objects, and the user service is left as
  the awaited calls left it.
\<close>

theorem sse_stream_frames:
  "create_sse_stream ser (map Ready obs) u =
     ((map (\<lambda>ob. ''data: ''
               @ (case ob of
                    HasModelDumpJson m \<Rightarrow> model_dump_json_exclude_none ser m
                  | HasDict d \<Rightarrow> dumps ser (dict_exclude_none ser d)
                  | Other j \<Rightarrow> dumps ser j)
               @ [CHR 0x0A, CHR 0x0A]) obs
         @ [''data: [DONE]'' @ [CHR 0x0A, CHR 0x0A]], None), u)
   \<and> (awaited_objects messages v = ((obs', None), v') \<longrightarrow>
        create_sse_stream ser messages v =
          ((map (\<lambda>ob. ''data: ''
                    @ (case ob of
                         HasModelDumpJson m \<Rightarrow> model_dump_json_exclude_none ser m
                       | HasDict d \<Rightarrow> dumps ser (dict_exclude_none ser d)
                       | Other j \<Rightarrow> dumps ser j)
                    @ [CHR 0x0A, CHR 0x0A]) obs'
              @ [''data: [DONE]'' @ [CHR 0x0A, CHR 0x0A]], None), v'))"
proof
  have "create_sse_stream ser (map Ready obs) u =
      ((map (\<lambda>ob. sse_frame (payload ser ob)) obs @ [sse_done], None), u)"
    by (simp add: create_sse_stream_awaited awaited_objects_ready)
  then show "create_sse_stream ser (map Ready obs) u =
     ((map (\<lambda>ob. ''data: ''
               @ (case ob of
                    HasModelDumpJson m \<Rightarrow> model_dump_json_exclude_none ser m
                  | HasDict d \<Rightarrow> dumps ser (dict_exclude_none ser d)
                  | Other j \<Rightarrow> dumps ser j)
               @ [CHR 0x0A, CHR 0x0A]) obs
         @ [''data: [DONE]'' @ [CHR 0x0A, CHR 0x0A]], None), u)"
    by (simp only: sse_frame_payload sse_done_def)
next
  show "awaited_objects messages v = ((obs', None), v') \<longrightarrow>
        create_sse_stream ser messages v =
          ((map (\<lambda>ob. ''data: ''
                    @ (case ob of
                         HasModelDumpJson m \<Rightarrow> model_dump_json_exclude_none ser m
                       | HasDict d \<Rightarrow> dumps ser (dict_exclude_none ser d)
                       | Other j \<Rightarrow> dumps ser j)
                    @ [CHR 0x0A, CHR 0x0A]) obs'
              @ [''data: [DONE]'' @ [CHR 0x0A, CHR 0x0A]], None), v')"
  proof
    assume a: "awaited_objects messages v = ((obs', None), v')"
    have "create_sse_stream ser messages v =
        ((map (\<lambda>ob. sse_frame (payload ser ob)) obs' @ [sse_done], None), v')"
      by (simp add: create_sse_stream_awaited a)
    then show "create_sse_stream ser messages v =
          ((map (\<lambda>ob. ''data: ''
                    @ (case ob of
                         HasModelDumpJson m \<Rightarrow> model_dump_json_exclude_none ser m
                       | HasDict d \<Rightarrow> dumps ser (dict_exclude_none ser d)
                       | Other j \<Rightarrow> dumps ser j)
                    @ [CHR 0x0A, CHR 0x0A]) obs'
              @ [''data: [DONE]'' @ [CHR 0x0A, CHR 0x0A]], None), v')"
      by (simp only: sse_frame_payload sse_done_def)
  qed
qed

theorem sse_stream_frames_witness:
  "create_sse_stream sample_serializers
     [Awaitable (\<lambda>v. case handle_tools_call sample_server
                          \<lparr>req_id = JInt 5, req_method = ''tools/call'',
                             params = Some [(''name'', JStr ''get_user_by_id'')]\<rparr> v of
                        (r, v') \<Rightarrow> (map_sum id HasModelDumpJson r, v')),
      Ready (Other JNull)] (0::nat) =
     (([''data: result'' @ [CHR 0x0A, CHR 0x0A],
        ''data: json'' @ [CHR 0x0A, CHR 0x0A],
        ''data: [DONE]'' @ [CHR 0x0A, CHR 0x0A]], None), 1)"
proof -
  note t = sse_stream_frames[where ser = sample_serializers and v = "0::nat" and v' = 1
          and u = "0::nat" and obs = "[]"
          and messages = "[Awaitable (\<lambda>v. case handle_tools_call sample_server
                          \<lparr>req_id = JInt 5, req_method = ''tools/call'',
                             params = Some [(''name'', JStr ''get_user_by_id'')]\<rparr> v of
                        (r, v') \<Rightarrow> (map_sum id HasModelDumpJson r, v')),
                      Ready (Other JNull)]"
          and obs' = "[HasModelDumpJson
               \<lparr>resp_id = JInt 5,
                result = Some (JObj [(''content'',
                   JArr [JObj [(''type'', JStr ''text''), (''text'', JStr ''ok'')]])]),
                error = None\<rparr>,
             Other JNull]"]
  have eq: "create_sse_stream sample_serializers
     [Awaitable (\<lambda>v. case handle_tools_call sample_server
                          \<lparr>req_id = JInt 5, req_method = ''tools/call'',
                             params = Some [(''name'', JStr ''get_user_by_id'')]\<rparr> v of
                        (r, v') \<Rightarrow> (map_sum id HasModelDumpJson r, v')),
      Ready (Other JNull)] (0::nat) =
     ((map (\<lambda>ob. ''data: ''
               @ (case ob of
                    HasModelDumpJson m \<Rightarrow> model_dump_json_exclude_none sample_serializers m
                  | HasDict d \<Rightarrow> dumps sample_serializers (dict_exclude_none sample_serializers d)
                  | Other j \<Rightarrow> dumps sample_serializers j)
               @ [CHR 0x0A, CHR 0x0A])
          [HasModelDumpJson
             \<lparr>resp_id = JInt 5,
              result = Some (JObj [(''content'',
                 JArr [JObj [(''type'', JStr ''text''), (''text'', JStr ''ok'')]])]),
              error = None\<rparr>,
           Other JNull]
         @ [''data: [DONE]'' @ [CHR 0x0A, CHR 0x0A]], None), 1)"
    by (rule t[THEN conjunct2, THEN mp, OF sample_awaited])
  have val: "((map (\<lambda>ob. ''data: ''
               @ (case ob of
                    HasModelDumpJson m \<Rightarrow> model_dump_json_exclude_none sample_serializers m
                  | HasDict d \<Rightarrow> dumps sample_serializers (dict_exclude_none sample_serializers d)
                  | Other j \<Rightarrow> dumps sample_serializers j)
               @ [CHR 0x0A, CHR 0x0A])
          [HasModelDumpJson
             \<lparr>resp_id = JInt 5,
              result = Some (JObj [(''content'',
                 JArr [JObj [(''type'', JStr ''text''), (''text'', JStr ''ok'')]])]),
              error = None\<rparr>,
           Other JNull]
         @ [''data: [DONE]'' @ [CHR 0x0A, CHR 0x0A]], None), 1::nat) =
     (([''data: result'' @ [CHR 0x0A, CHR 0x0A],
        ''data: json'' @ [CHR 0x0A, CHR 0x0A],
        ''data: [DONE]'' @ [CHR 0x0A, CHR 0x0A]], None), 1)"
    by (simp add: sample_serializers_def sample_render_def)
  from eq val show ?thesis by (rule trans)
qed

end
